theory Spec2Isabelle
  imports Main "HOL-Library.Finite_Map"
begin

section \<open>Strings of the backend\<close>

text \<open>
  The backend is \<^verbatim>\<open>src/backend/index.js\<close>. A JavaScript string is modelled as a
  \<^typ>\<open>string\<close>, one \<^typ>\<open>char\<close> per code unit. The regular expression of
  \<^verbatim>\<open>sanitizeFilename\<close> has no \<^verbatim>\<open>u\<close> flag, so it works code unit by code unit, and
  every character it names is ASCII.
\<close>

text \<open>The character class \<^verbatim>\<open>[<>:"/\\|?*]\<close> of line 40 (0x22 is the double quote,
  0x5C the backslash).\<close>

definition invalid_chars :: "char list" where
  "invalid_chars =
     [CHR ''<'', CHR ''>'', CHR '':'', CHR 0x22, CHR ''/'', CHR 0x5C, CHR ''|'', CHR ''?'', CHR ''*'']"

text \<open>\<^verbatim>\<open>filename.replace(/[<>:"/\\|?*]/g, '_')\<close>: with the \<^verbatim>\<open>g\<close> flag every match,
  each one character long, is replaced by the underscore.\<close>

definition sanitizeFilename :: "string \<Rightarrow> string" where
  "sanitizeFilename filename =
     map (\<lambda>c. if c \<in> set invalid_chars then CHR ''_'' else c) filename"

section \<open>Paths\<close>

text \<open>
  Modelled from the spec: \<^verbatim>\<open>path.join\<close> and \<^verbatim>\<open>path.basename\<close>, with which the code
  strips the directory components of a stored value and joins paths under the upload
  directory. They belong to the Node.js runtime, not to the repository, and are taken
  in their POSIX form, on the segments between slashes:
  \<^verbatim>\<open>normalizeString\<close> drops empty and \<^verbatim>\<open>.\<close> segments and lets \<^verbatim>\<open>..\<close> remove the
  segment before it.
\<close>

fun split_slash :: "string \<Rightarrow> string list" where
  "split_slash [] = [[]]"
| "split_slash (c # cs) =
     (if c = CHR ''/'' then [] # split_slash cs
      else (case split_slash cs of [] \<Rightarrow> [[c]] | s # ss \<Rightarrow> (c # s) # ss))"

definition join_slash :: "string list \<Rightarrow> string" where
  "join_slash segs =
     (case segs of [] \<Rightarrow> [] | s # ss \<Rightarrow> s @ concat (map (\<lambda>t. CHR ''/'' # t) ss))"

definition normalize_step :: "bool \<Rightarrow> string list \<Rightarrow> string \<Rightarrow> string list" where
  "normalize_step allowAboveRoot res seg =
     (if seg = [] \<or> seg = ''.'' then res
      else if seg = ''..'' then
        (if res \<noteq> [] \<and> last res \<noteq> ''..'' then butlast res
         else if allowAboveRoot then res @ [''..''] else res)
      else res @ [seg])"

definition normalizeString :: "string \<Rightarrow> bool \<Rightarrow> string" where
  "normalizeString path allowAboveRoot =
     join_slash (foldl (normalize_step allowAboveRoot) [] (split_slash path))"

definition normalize :: "string \<Rightarrow> string" where
  "normalize path =
     (if path = [] then ''.''
      else
        let isAbsolute = (hd path = CHR ''/'');
            trailingSeparator = (last path = CHR ''/'');
            p = normalizeString path (\<not> isAbsolute)
        in if p = [] then (if isAbsolute then ''/'' else if trailingSeparator then ''./'' else ''.'')
           else (if isAbsolute then ''/'' else []) @ p @ (if trailingSeparator then ''/'' else []))"

definition path_join :: "string list \<Rightarrow> string" where
  "path_join args =
     (let parts = filter (\<lambda>arg. arg \<noteq> []) args
      in if parts = [] then ''.'' else normalize (join_slash parts))"

text \<open>\<^verbatim>\<open>path.basename(p)\<close>: trailing slashes are skipped, then the characters back to
  the previous slash are returned.\<close>

definition basename :: "string \<Rightarrow> string" where
  "basename path =
     rev (takeWhile (\<lambda>c. c \<noteq> CHR ''/'') (dropWhile (\<lambda>c. c = CHR ''/'') (rev path)))"

text \<open>Line 15: \<^verbatim>\<open>uploadDir = path.join(__dirname, 'uploads')\<close>. The directory of the
  script, \<^verbatim>\<open>__dirname\<close>, is a parameter \<open>d\<close> of everything that uses it.\<close>

definition uploadDir :: "string \<Rightarrow> string" where
  "uploadDir d = path_join [d, ''uploads'']"

text \<open>A segment that names an entry of a directory: not empty, not \<^verbatim>\<open>.\<close>, not \<^verbatim>\<open>..\<close>,
  and without a slash.\<close>

definition proper_segment :: "string \<Rightarrow> bool" where
  "proper_segment s = (s \<noteq> [] \<and> s \<noteq> ''.'' \<and> s \<noteq> ''..'' \<and> CHR ''/'' \<notin> set s)"

text \<open>An absolute, normalised directory other than the root, as \<^verbatim>\<open>__dirname\<close> is.\<close>

definition is_abs_dir :: "string \<Rightarrow> bool" where
  "is_abs_dir d =
     (case d of [] \<Rightarrow> False
      | c # r \<Rightarrow> c = CHR ''/'' \<and> list_all proper_segment (split_slash r))"

text \<open>\<open>inside dir p\<close>: \<open>p\<close> is \<open>dir\<close>, a slash, and the name of one entry.\<close>

definition inside :: "string \<Rightarrow> string \<Rightarrow> bool" where
  "inside dir p =
     (take (length dir + 1) p = dir @ ''/'' \<and> proper_segment (drop (length dir + 1) p))"

section \<open>Decimal numerals\<close>

text \<open>\<^verbatim>\<open>Date.now()\<close> is a count of milliseconds, here a \<^typ>\<open>nat\<close>; concatenating it
  with a string writes it in decimal.\<close>

definition digit_char :: "nat \<Rightarrow> char" where
  "digit_char n = ''0123456789'' ! (n mod 10)"

function show_nat :: "nat \<Rightarrow> string" where
  "show_nat n = (if n < 10 then [digit_char n] else show_nat (n div 10) @ [digit_char n])"
  by pat_completeness auto
termination
  by (relation "measure id") auto

declare show_nat.simps [simp del]

section \<open>Users, responses and the state of the server\<close>

text \<open>An identifier of the store, written as its 24 lower-case hexadecimal digits.\<close>

type_synonym oid = string

text \<open>
  \<^verbatim>\<open>userSchema\<close> (lines 29 to 34), with the identifier the store assigns. A field that
  is \<^verbatim>\<open>null\<close> or missing is \<open>None\<close>.
\<close>

record user =
  uid :: oid
  username :: "string option"
  email :: "string option"
  password :: "string option"
  image :: "string option"

text \<open>JavaScript truthiness of a value that is a string, \<^verbatim>\<open>null\<close> or \<^verbatim>\<open>undefined\<close>.\<close>

definition truthy :: "string option \<Rightarrow> bool" where
  "truthy v = (case v of None \<Rightarrow> False | Some s \<Rightarrow> s \<noteq> [])"

datatype error =
    CastError
  | ValidationError
  | DuplicateKey
  | OnlyImageFiles
  | UnexpectedField
  | NoSuchDirectory
  | SendFileError

text \<open>
  What a handler sends: a JSON value, the bytes of a file, or the page of the framework's
  own error handler. \<open>Json_error_message e\<close> is \<^verbatim>\<open>{ error: err.message }\<close>.
\<close>

datatype payload =
    Json_user user
  | Json_users "user fset"
  | Json_error string
  | Json_error_message error
  | Json_error_details string error
  | Json_message string
  | File_body string
  | Error_page error

record response =
  status :: nat
  payload :: payload

text \<open>
  The state outside the process: the documents of the collection by identifier, the
  regular files on disk and the directories on disk (both by absolute path).
\<close>

record world =
  users :: "(oid, user) fmap"
  files :: "string set"
  dirs :: "string set"

text \<open>One file part of a multipart request, as the upload middleware sees it.\<close>

record upload_part =
  fieldname :: string
  originalname :: string
  mimetype :: string

text \<open>
  A request: \<^verbatim>\<open>req.params.id\<close>, the three text fields of \<^verbatim>\<open>req.body\<close> (\<open>None\<close> when
  the field is absent, that is \<^verbatim>\<open>undefined\<close>), the file part it carries, and
  \<^verbatim>\<open>req.file.filename\<close> (\<open>req_file\<close>), which the upload middleware sets.
\<close>

record request =
  params_id :: string
  body_username :: "string option"
  body_email :: "string option"
  body_password :: "string option"
  part :: "upload_part option"
  req_file :: "string option"

section \<open>The document store\<close>

definition hex_digits :: "char list" where
  "hex_digits = ''0123456789abcdefABCDEF''"

definition lower_hex :: "char \<Rightarrow> char" where
  "lower_hex c =
     (if c = CHR ''A'' then CHR ''a'' else if c = CHR ''B'' then CHR ''b''
      else if c = CHR ''C'' then CHR ''c'' else if c = CHR ''D'' then CHR ''d''
      else if c = CHR ''E'' then CHR ''e'' else if c = CHR ''F'' then CHR ''f'' else c)"

text \<open>
  Modelled from the spec: the store's cast of a request string to its identifier type,
  which belongs to the Mongoose library and is not in the repository. The spec calls an
  identifier of the wrong shape malformed; the shape taken here is 24 hexadecimal
  digits, read without regard to case.
\<close>

definition castObjectId :: "string \<Rightarrow> oid option" where
  "castObjectId s =
     (if length s = 24 \<and> list_all (\<lambda>c. c \<in> set hex_digits) s then Some (map lower_hex s)
      else None)"

text \<open>
  Modelled from the spec: \<^verbatim>\<open>User.findById\<close>, \<^verbatim>\<open>User.find\<close>, \<^verbatim>\<open>save\<close>,
  \<^verbatim>\<open>User.findByIdAndUpdate\<close> with \<^verbatim>\<open>{ new: true }\<close> and \<^verbatim>\<open>User.findByIdAndDelete\<close> of
  the Mongoose library, which is not in the repository. A malformed identifier is the
  failure the handlers catch (the reference behaviour of section 4.3 of the spec); an
  identifier no document has gives \<^verbatim>\<open>null\<close>. Failures of the connection are left out.
\<close>

definition findById :: "world \<Rightarrow> string \<Rightarrow> error + user option" where
  "findById w ident =
     (case castObjectId ident of None \<Rightarrow> Inl CastError | Some i \<Rightarrow> Inr (fmlookup (users w) i))"

definition find_all :: "world \<Rightarrow> user fset" where
  "find_all w = fmran (users w)"

text \<open>The three \<^verbatim>\<open>required: true\<close> paths of the schema ask for a non-empty string.\<close>

definition required_ok :: "user \<Rightarrow> bool" where
  "required_ok u = (truthy (username u) \<and> truthy (email u) \<and> truthy (password u))"

definition save :: "world \<Rightarrow> user \<Rightarrow> error + world" where
  "save w u =
     (if \<not> required_ok u then Inl ValidationError
      else if fmlookup (users w) (uid u) \<noteq> None then Inl DuplicateKey
      else Inr (w\<lparr>users := fmupd (uid u) u (users w)\<rparr>))"

text \<open>An update object: its keys in order, each with a string or \<^verbatim>\<open>undefined\<close>.\<close>

type_synonym update = "(string \<times> string option) list"

text \<open>
  Modelled from the spec: the library's cast of an update object, which is not in the
  repository. Every key of the update object is set (``overwrites
  username/email/password unconditionally''), so an entry whose value is
  \<^verbatim>\<open>undefined\<close> writes \<^verbatim>\<open>null\<close> over the stored value, and a key that is not in the
  object is left alone (``set field only if present in the patch''). The source pins no
  version of the library, and later versions remove an \<^verbatim>\<open>undefined\<close> entry from the
  patch before it is sent: \<open>omitUndefined\<close>, named after the library's option, is true
  for them and false for the behaviour the spec words.
\<close>

definition castUpdate :: "bool \<Rightarrow> update \<Rightarrow> update" where
  "castUpdate omitUndefined upd =
     (if omitUndefined then filter (\<lambda>kv. snd kv \<noteq> None) upd else upd)"

definition set_path :: "user \<Rightarrow> string \<times> string option \<Rightarrow> user" where
  "set_path u kv =
     (if fst kv = ''username'' then u\<lparr>username := snd kv\<rparr>
      else if fst kv = ''email'' then u\<lparr>email := snd kv\<rparr>
      else if fst kv = ''password'' then u\<lparr>password := snd kv\<rparr>
      else if fst kv = ''image'' then u\<lparr>image := snd kv\<rparr>
      else u)"

definition apply_update :: "bool \<Rightarrow> update \<Rightarrow> user \<Rightarrow> user" where
  "apply_update omitUndefined upd u = foldl set_path u (castUpdate omitUndefined upd)"

definition findByIdAndUpdate ::
  "bool \<Rightarrow> world \<Rightarrow> string \<Rightarrow> update \<Rightarrow> error + (user option \<times> world)" where
  "findByIdAndUpdate omitUndefined w ident upd =
     (case castObjectId ident of
        None \<Rightarrow> Inl CastError
      | Some i \<Rightarrow>
          (case fmlookup (users w) i of
             None \<Rightarrow> Inr (None, w)
           | Some u \<Rightarrow>
               Inr (Some (apply_update omitUndefined upd u),
                    w\<lparr>users := fmupd i (apply_update omitUndefined upd u) (users w)\<rparr>)))"

definition findByIdAndDelete :: "world \<Rightarrow> string \<Rightarrow> error + (user option \<times> world)" where
  "findByIdAndDelete w ident =
     (case castObjectId ident of
        None \<Rightarrow> Inl CastError
      | Some i \<Rightarrow>
          (case fmlookup (users w) i of
             None \<Rightarrow> Inr (None, w)
           | Some u \<Rightarrow> Inr (Some u, w\<lparr>users := fmdrop i (users w)\<rparr>)))"

section \<open>The upload store\<close>



text \<open>\<^verbatim>\<open>String.prototype.startsWith\<close>.\<close>

definition startsWith :: "string \<Rightarrow> string \<Rightarrow> bool" where
  "startsWith s pre = (take (length pre) s = pre)"

text \<open>Lines 44 to 52, the two callbacks of \<^verbatim>\<open>multer.diskStorage\<close>; \<open>now\<close> is the
  value of \<^verbatim>\<open>Date.now()\<close>.\<close>

definition storage_destination :: "string \<Rightarrow> string" where
  "storage_destination d = uploadDir d"

definition storage_filename :: "nat \<Rightarrow> upload_part \<Rightarrow> string" where
  "storage_filename now f =
     (let sanitizedFileName = sanitizeFilename (originalname f)
      in show_nat now @ ''-'' @ sanitizedFileName)"

text \<open>Lines 56 to 63: \<^verbatim>\<open>cb(null, true)\<close> or \<^verbatim>\<open>cb(new Error(...), false)\<close>.\<close>

definition fileFilter :: "upload_part \<Rightarrow> error + bool" where
  "fileFilter f =
     (if startsWith (mimetype f) ''image/'' then Inr True else Inl OnlyImageFiles)"

text \<open>
  Modelled from the spec: \<^verbatim>\<open>upload.single(field)\<close> of the multer library, which is not
  in the repository. A request without a file part passes through. A file part under
  another field name is refused; otherwise the filter of line 56 decides, and a refusal
  ends the request before anything is stored. An accepted file is written to the
  destination joined with the generated name, which fails when the destination is not
  a directory on disk. A part with an empty file name carries no file and is \<open>None\<close>
  in \<open>part\<close>.
\<close>

definition upload_single :: "string \<Rightarrow> string \<Rightarrow> nat \<Rightarrow> request \<Rightarrow> world \<Rightarrow> error + (request \<times> world)" where
  "upload_single field d now req w =
     (case part req of
        None \<Rightarrow> Inr (req\<lparr>req_file := None\<rparr>, w)
      | Some f \<Rightarrow>
          if fieldname f \<noteq> field then Inl UnexpectedField
          else
            (case fileFilter f of
               Inl err \<Rightarrow> Inl err
             | Inr accepted \<Rightarrow>
                 if \<not> accepted then Inr (req\<lparr>req_file := None\<rparr>, w)
                 else if storage_destination d \<notin> dirs w then Inl NoSuchDirectory
                 else
                   Inr (req\<lparr>req_file := Some (storage_filename now f)\<rparr>,
                        w\<lparr>files :=
                            insert (path_join [storage_destination d, storage_filename now f])
                              (files w)\<rparr>)))"

text \<open>
  Modelled from the spec: the error handler of the Express framework, which answers an
  error that no handler of the application caught (the file has no error middleware)
  with a generic server error.
\<close>

definition default_error_handler :: "error \<Rightarrow> response" where
  "default_error_handler err = \<lparr>status = 500, payload = Error_page err\<rparr>"

text \<open>
  Modelled from the spec: \<^verbatim>\<open>res.sendFile\<close> of the Express framework. A regular file
  at the path is sent with status 200; anything else is the error the callback of
  lines 164 to 169 answers.
\<close>

definition sendFile :: "world \<Rightarrow> string \<Rightarrow> response" where
  "sendFile w p =
     (if p \<in> files w then \<lparr>status = 200, payload = File_body p\<rparr>
      else \<lparr>status = 500, payload = Json_error_details ''Error sending the image file'' SendFileError\<rparr>)"

section \<open>The route handlers\<close>

text \<open>
  Each handler takes the request and the state and returns the response with the state
  after it. \<open>new_id\<close> is the identifier \<^verbatim>\<open>new User(...)\<close> draws for the document.
\<close>

text \<open>Lines 73 to 84, the handler of \<^verbatim>\<open>POST /addUser\<close>.\<close>

definition post_addUser :: "oid \<Rightarrow> request \<Rightarrow> world \<Rightarrow> response \<times> world" where
  "post_addUser new_id req w =
     (let img = (case req_file req of Some fname \<Rightarrow> Some (''/uploads/'' @ fname) | None \<Rightarrow> None);
          newUser = \<lparr>uid = new_id, username = body_username req, email = body_email req,
                     password = body_password req, image = img\<rparr>
      in case save w newUser of
           Inl err \<Rightarrow> (\<lparr>status = 500, payload = Json_error_message err\<rparr>, w)
         | Inr w' \<Rightarrow> (\<lparr>status = 201, payload = Json_user newUser\<rparr>, w'))"

text \<open>Lines 87 to 105, \<^verbatim>\<open>GET /users\<close>. The documents \<^verbatim>\<open>find\<close> returns are copies in
  memory; the handler changes them and never saves them.\<close>

definition usersWithImage :: "user \<Rightarrow> user" where
  "usersWithImage user =
     (if truthy (image user)
      then user\<lparr>image := map_option (\<lambda>p. ''http://localhost:8080'' @ p) (image user)\<rparr>
      else user)"

definition get_users :: "world \<Rightarrow> response \<times> world" where
  "get_users w =
     (let found = find_all w
      in (\<lparr>status = 200, payload = Json_users (usersWithImage |`| found)\<rparr>, w))"

text \<open>Lines 109 to 117, \<^verbatim>\<open>GET /users/:id\<close>.\<close>

definition get_user :: "request \<Rightarrow> world \<Rightarrow> response \<times> world" where
  "get_user req w =
     (case findById w (params_id req) of
        Inl err \<Rightarrow> (\<lparr>status = 500, payload = Json_error_message err\<rparr>, w)
      | Inr None \<Rightarrow> (\<lparr>status = 404, payload = Json_error ''User not found''\<rparr>, w)
      | Inr (Some user) \<Rightarrow> (\<lparr>status = 200, payload = Json_user user\<rparr>, w))"

text \<open>Lines 120 to 136, the handler of \<^verbatim>\<open>PUT /users/:id\<close>. The update object has the
  three text fields, defined or not, and \<^verbatim>\<open>image\<close> only when it is truthy.\<close>

definition put_update :: "request \<Rightarrow> update" where
  "put_update req =
     (let img = (case req_file req of Some fname \<Rightarrow> Some (''/uploads/'' @ fname) | None \<Rightarrow> None)
      in [(''username'', body_username req), (''email'', body_email req),
          (''password'', body_password req)] @
         (if truthy img then [(''image'', img)] else []))"

definition put_user :: "bool \<Rightarrow> request \<Rightarrow> world \<Rightarrow> response \<times> world" where
  "put_user omitUndefined req w =
     (case findByIdAndUpdate omitUndefined w (params_id req) (put_update req) of
        Inl err \<Rightarrow> (\<lparr>status = 500, payload = Json_error_message err\<rparr>, w)
      | Inr (None, w') \<Rightarrow> (\<lparr>status = 404, payload = Json_error ''User not found''\<rparr>, w')
      | Inr (Some updatedUser, w') \<Rightarrow> (\<lparr>status = 200, payload = Json_user updatedUser\<rparr>, w'))"

text \<open>Lines 139 to 147, \<^verbatim>\<open>DELETE /users/:id\<close>.\<close>

definition delete_user :: "request \<Rightarrow> world \<Rightarrow> response \<times> world" where
  "delete_user req w =
     (case findByIdAndDelete w (params_id req) of
        Inl err \<Rightarrow> (\<lparr>status = 500, payload = Json_error_message err\<rparr>, w)
      | Inr (None, w') \<Rightarrow> (\<lparr>status = 404, payload = Json_error ''User not found''\<rparr>, w')
      | Inr (Some deletedUser, w') \<Rightarrow>
          (\<lparr>status = 200, payload = Json_message ''User deleted successfully''\<rparr>, w'))"

text \<open>Line 161: the path handed to \<^verbatim>\<open>res.sendFile\<close>.\<close>

definition imagePath :: "string \<Rightarrow> string \<Rightarrow> string" where
  "imagePath d user_image = path_join [d, ''uploads'', basename user_image]"

text \<open>Lines 150 to 174, \<^verbatim>\<open>GET /userImage/:id\<close>.\<close>

definition get_userImage :: "string \<Rightarrow> request \<Rightarrow> world \<Rightarrow> response \<times> world" where
  "get_userImage d req w =
     (case findById w (params_id req) of
        Inl err \<Rightarrow> (\<lparr>status = 500, payload = Json_error_details ''Internal Server Error'' err\<rparr>, w)
      | Inr found \<Rightarrow>
          (case found of
             None \<Rightarrow>
               (\<lparr>status = 404, payload = Json_error ''User not found or image not available''\<rparr>, w)
           | Some user \<Rightarrow>
               (case image user of
                  None \<Rightarrow>
                    (\<lparr>status = 404,
                      payload = Json_error ''User not found or image not available''\<rparr>, w)
                | Some p \<Rightarrow>
                    if p = [] then
                      (\<lparr>status = 404,
                        payload = Json_error ''User not found or image not available''\<rparr>, w)
                    else (sendFile w (imagePath d p), w))))"

text \<open>The two routes behind \<^verbatim>\<open>upload.single('image')\<close>: the middleware runs first, and
  the handler runs only when the middleware passes the request on.\<close>

definition route_addUser :: "string \<Rightarrow> nat \<Rightarrow> oid \<Rightarrow> request \<Rightarrow> world \<Rightarrow> response \<times> world" where
  "route_addUser d now new_id req w =
     (case upload_single ''image'' d now req w of
        Inl err \<Rightarrow> (default_error_handler err, w)
      | Inr (req', w') \<Rightarrow> post_addUser new_id req' w')"

definition route_put_user ::
  "bool \<Rightarrow> string \<Rightarrow> nat \<Rightarrow> request \<Rightarrow> world \<Rightarrow> response \<times> world" where
  "route_put_user omitUndefined d now req w =
     (case upload_single ''image'' d now req w of
        Inl err \<Rightarrow> (default_error_handler err, w)
      | Inr (req', w') \<Rightarrow> put_user omitUndefined req' w')"

section \<open>A small installation\<close>

text \<open>A directory for the script, one stored user with an uploaded image, and three
  requests, on which the results below are run.\<close>

definition example_dir :: string where
  "example_dir = ''/srv/backend''"

definition alice_id :: oid where
  "alice_id = ''65a1b2c3d4e5f60718293a4b''"

definition carol_id :: oid where
  "carol_id = ''65a1b2c3d4e5f60718293a4c''"

definition alice :: user where
  "alice = \<lparr>uid = alice_id, username = Some ''alice'', email = Some ''a@x.com'',
            password = Some ''p'', image = Some ''/uploads/1730630000123-cat.png''\<rparr>"

definition example_world :: world where
  "example_world =
     \<lparr>users = fmupd alice_id alice fmempty,
      files = {''/srv/backend/uploads/1730630000123-cat.png''},
      dirs = {''/srv/backend/uploads''}\<rparr>"

definition png_part :: upload_part where
  "png_part = \<lparr>fieldname = ''image'', originalname = ''my:cat.png'', mimetype = ''image/png''\<rparr>"

definition text_part :: upload_part where
  "text_part = \<lparr>fieldname = ''image'', originalname = ''notes.txt'', mimetype = ''text/plain''\<rparr>"

text \<open>A request for the identifier \<open>ident\<close> whose body has only \<^verbatim>\<open>username\<close>.\<close>

definition bob_request :: "string \<Rightarrow> request" where
  "bob_request ident =
     \<lparr>params_id = ident, body_username = Some ''bob'', body_email = None,
      body_password = None, part = None, req_file = None\<rparr>"

text \<open>A request with the three text fields.\<close>

definition carol_request :: request where
  "carol_request =
     \<lparr>params_id = [], body_username = Some ''carol'', body_email = Some ''c@x.com'',
      body_password = Some ''q'', part = None, req_file = None\<rparr>"

section \<open>The filename sanitizer\<close>

lemma underscore_valid: "CHR ''_'' \<notin> set invalid_chars"
  by (simp add: invalid_chars_def)

lemma sanitizeFilename_length: "length (sanitizeFilename f) = length f"
  by (simp add: sanitizeFilename_def)

lemma sanitizeFilename_nth:
  "i < length f \<Longrightarrow>
   sanitizeFilename f ! i = (if f ! i \<in> set invalid_chars then CHR ''_'' else f ! i)"
  by (simp add: sanitizeFilename_def)

lemma sanitizeFilename_clean: "set (sanitizeFilename f) \<inter> set invalid_chars = {}"
  using underscore_valid by (auto simp: sanitizeFilename_def)

text \<open>
  C4. For every input string the sanitizer returns a string of the same length, in which
  every position that held one of \<^verbatim>\<open>< > : " / \ | ? *\<close> holds \<^verbatim>\<open>_\<close> and every other
  position holds the character of the input; the output contains none of those
  characters. The function is a total HOL function of its argument alone, so it is pure
  and never fails.
\<close>

theorem sanitizeFilename_contract:
  "length (sanitizeFilename f) = length f \<and>
   (\<forall>i < length f.
      sanitizeFilename f ! i = (if f ! i \<in> set invalid_chars then CHR ''_'' else f ! i)) \<and>
   set (sanitizeFilename f) \<inter> set invalid_chars = {}"
  using sanitizeFilename_length sanitizeFilename_nth sanitizeFilename_clean by blast

theorem sanitizeFilename_contract_witness:
  "sanitizeFilename ''a<b>:c/d?.png'' = ''a_b__c_d_.png'' \<and>
   length (sanitizeFilename ''a<b>:c/d?.png'') = length ''a<b>:c/d?.png'' \<and>
   set (sanitizeFilename ''a<b>:c/d?.png'') \<inter> set invalid_chars = {}"
  using sanitizeFilename_contract [of "''a<b>:c/d?.png''"]
  by (simp add: sanitizeFilename_def invalid_chars_def)

section \<open>Joining paths under the directory of the script\<close>

lemma split_slash_ne: "split_slash s \<noteq> []"
  by (induction s) (auto split: list.splits)

lemma split_slash_append: "split_slash (a @ CHR ''/'' # b) = split_slash a @ split_slash b"
  by (induction a) (auto split: list.splits simp: split_slash_ne)

lemma split_slash_single: "CHR ''/'' \<notin> set s \<Longrightarrow> split_slash s = [s]"
  by (induction s) auto

lemma join_slash_snoc: "xs \<noteq> [] \<Longrightarrow> join_slash (xs @ [y]) = join_slash xs @ CHR ''/'' # y"
  by (cases xs) (auto simp: join_slash_def)

lemma join_split_slash: "join_slash (split_slash s) = s"
  by (induction s) (auto simp: join_slash_def split: list.splits)

lemma foldl_step_proper:
  "list_all proper_segment segs \<Longrightarrow> foldl (normalize_step a) res segs = res @ segs"
  by (induction segs arbitrary: res) (auto simp: normalize_step_def proper_segment_def)

lemma basename_no_slash: "CHR ''/'' \<notin> set (basename p)"
  by (auto simp: basename_def dest: set_takeWhileD)

lemma foldl_step_anchor:
  assumes "list_all proper_segment rs"
  shows "foldl (normalize_step a) [] ([] # rs @ [''uploads'']) = rs @ [''uploads'']"
proof -
  have "list_all proper_segment (rs @ [''uploads''])"
    using assms by (simp add: proper_segment_def)
  then have "foldl (normalize_step a) [] (rs @ [''uploads'']) = [] @ rs @ [''uploads'']"
    by (rule foldl_step_proper)
  moreover have "normalize_step a [] [] = []"
    by (simp add: normalize_step_def)
  ultimately show ?thesis by simp
qed

lemma join_slash_uploads:
  "join_slash (split_slash r @ [''uploads'']) = r @ ''/uploads''"
  using join_slash_snoc [of "split_slash r" "''uploads''"] split_slash_ne [of r]
    join_split_slash [of r]
  by simp

lemma normalize_joined:
  assumes d: "is_abs_dir d" and b: "CHR ''/'' \<notin> set b" "b \<noteq> []"
  shows "normalize (d @ ''/uploads/'' @ b) =
           (if b = ''.'' then d @ ''/uploads'' else if b = ''..'' then d else d @ ''/uploads/'' @ b)"
proof -
  from d obtain r where r: "d = CHR ''/'' # r" "list_all proper_segment (split_slash r)"
    by (auto simp: is_abs_dir_def split: list.splits)
  let ?rs = "split_slash r"
  define p where "p = d @ ''/uploads/'' @ b"
  have rne: "r \<noteq> []"
    using r(2) by (cases r) (auto simp: proper_segment_def)
  have "split_slash (''uploads'' @ CHR ''/'' # b) = [''uploads'', b]"
    unfolding split_slash_append using split_slash_single [OF b(1)] by simp
  then have "split_slash (r @ CHR ''/'' # ''uploads/'' @ b) = ?rs @ [''uploads'', b]"
    unfolding split_slash_append [of r] by simp
  then have sp: "split_slash p = ([] # ?rs @ [''uploads'']) @ [b]"
    by (simp add: r(1) p_def)
  have st: "foldl (normalize_step False) [] (split_slash p) =
              normalize_step False (?rs @ [''uploads'']) b"
    unfolding sp foldl_append foldl_step_anchor [OF r(2)] by simp
  have j2: "join_slash (?rs @ [''uploads'', b]) = r @ ''/uploads/'' @ b"
    using join_slash_snoc [of "?rs @ [''uploads'']" b] join_slash_uploads [of r] by simp
  have ns: "normalizeString p False =
              (if b = ''.'' then r @ ''/uploads'' else if b = ''..'' then r else r @ ''/uploads/'' @ b)"
    unfolding normalizeString_def st
    using b(2) j2 join_slash_uploads [of r] join_split_slash [of r]
    by (simp add: normalize_step_def)
  have hd: "hd p = CHR ''/''"
    by (simp add: r(1) p_def)
  have "last p = last b"
    using b(2) by (simp add: p_def)
  then have lst: "last p \<noteq> CHR ''/''"
    using b last_in_set [of b] by metis
  have ne: "p \<noteq> []"
    by (simp add: p_def r(1))
  have "normalize p =
          (if b = ''.'' then d @ ''/uploads'' else if b = ''..'' then d else d @ ''/uploads/'' @ b)"
    using rne by (simp add: normalize_def Let_def ns hd lst ne r(1))
  then show ?thesis
    by (simp only: p_def)
qed

lemma uploadDir_abs: assumes d: "is_abs_dir d" shows "uploadDir d = d @ ''/uploads''"
proof -
  from d obtain r where r: "d = CHR ''/'' # r" "list_all proper_segment (split_slash r)"
    by (auto simp: is_abs_dir_def split: list.splits)
  let ?rs = "split_slash r"
  define p where "p = d @ ''/uploads''"
  have "split_slash (r @ CHR ''/'' # ''uploads'') = ?rs @ [''uploads'']"
    unfolding split_slash_append [of r] using split_slash_single [of "''uploads''"] by simp
  then have sp: "split_slash p = [] # ?rs @ [''uploads'']"
    by (simp add: r(1) p_def)
  have ns: "normalizeString p False = r @ ''/uploads''"
    unfolding normalizeString_def sp foldl_step_anchor [OF r(2)] by (rule join_slash_uploads)
  have hd: "hd p = CHR ''/''"
    by (simp add: r(1) p_def)
  have lst: "last p \<noteq> CHR ''/''"
    by (simp add: p_def)
  have ne: "p \<noteq> []"
    by (simp add: p_def)
  have "normalize p = d @ ''/uploads''"
    by (simp add: normalize_def Let_def ns hd lst ne r(1))
  moreover have "d \<noteq> []" using r(1) by simp
  ultimately show ?thesis
    by (simp add: uploadDir_def path_join_def join_slash_def p_def)
qed

lemma path_join_basename:
  assumes d: "is_abs_dir d" and b: "CHR ''/'' \<notin> set b"
  shows "path_join [d, ''uploads'', b] =
           (if b = [] \<or> b = ''.'' then d @ ''/uploads'' else if b = ''..'' then d
            else d @ ''/uploads/'' @ b)"
proof (cases "b = []")
  case True
  have "d \<noteq> []" using d by (auto simp: is_abs_dir_def)
  then have "path_join [d, ''uploads'', b] = uploadDir d"
    using True by (simp add: path_join_def uploadDir_def)
  then show ?thesis using True uploadDir_abs [OF d] by simp
next
  case False
  have "d \<noteq> []" using d by (auto simp: is_abs_dir_def)
  then have "path_join [d, ''uploads'', b] = normalize (d @ ''/uploads/'' @ b)"
    using False by (simp add: path_join_def join_slash_def)
  then show ?thesis using normalize_joined [OF d b False] False by simp
qed

section \<open>Facts about the small installation\<close>

lemma example_dir_abs: "is_abs_dir example_dir"
  by (simp add: example_dir_def is_abs_dir_def proper_segment_def)

lemma example_uploadDir: "uploadDir example_dir = ''/srv/backend/uploads''"
  using uploadDir_abs [OF example_dir_abs] by (simp add: example_dir_def)

lemma cast_alice: "castObjectId alice_id = Some alice_id"
  by (simp add: castObjectId_def alice_id_def hex_digits_def lower_hex_def)

lemma lookup_alice: "fmlookup (users example_world) alice_id = Some alice"
  by (simp add: example_world_def)

lemma cast_carol: "castObjectId carol_id = Some carol_id"
  by (simp add: castObjectId_def carol_id_def hex_digits_def lower_hex_def)

lemma lookup_carol: "fmlookup (users example_world) carol_id = None"
  by (simp add: example_world_def alice_id_def carol_id_def)

section \<open>Generated names and the upload directory\<close>



lemma inside_child: "proper_segment name \<Longrightarrow> inside dir (dir @ ''/'' @ name)"
  by (simp add: inside_def)




section \<open>The image of a user\<close>

lemma imagePath_cases:
  assumes d: "is_abs_dir d"
  shows "imagePath d p =
           (if basename p = [] \<or> basename p = ''.'' then uploadDir d
            else if basename p = ''..'' then d
            else uploadDir d @ ''/'' @ basename p)"
  unfolding imagePath_def
  using path_join_basename [OF d basename_no_slash [of p]] uploadDir_abs [OF d] by simp

lemma imagePath_inside:
  assumes d: "is_abs_dir d" and b: "proper_segment (basename p)"
  shows "inside (uploadDir d) (imagePath d p)"
  using imagePath_cases [OF d, of p] b inside_child [OF b, of "uploadDir d"]
  by (simp add: proper_segment_def)

lemma get_userImage_found:
  assumes "castObjectId (params_id req) = Some i" and "fmlookup (users w) i = Some user"
    and "image user = Some p" and "p \<noteq> []"
  shows "get_userImage d req w = (sendFile w (imagePath d p), w)"
  using assms by (simp add: get_userImage_def findById_def)

lemma get_userImage_absent:
  assumes i: "castObjectId (params_id req) = Some i"
    and a: "fmlookup (users w) i = None \<or>
              (\<exists>user. fmlookup (users w) i = Some user \<and> \<not> truthy (image user))"
  shows "get_userImage d req w =
           (\<lparr>status = 404, payload = Json_error ''User not found or image not available''\<rparr>, w)"
  using a
proof (elim disjE exE conjE)
  assume "fmlookup (users w) i = None"
  then show ?thesis
    using i by (simp add: get_userImage_def findById_def)
next
  fix user
  assume u: "fmlookup (users w) i = Some user" and t: "\<not> truthy (image user)"
  show ?thesis
  proof (cases "image user")
    case None
    then show ?thesis
      using i u by (simp add: get_userImage_def findById_def)
  next
    case (Some p)
    then have "p = []"
      using t by (simp add: truthy_def)
    then show ?thesis
      using i u Some by (simp add: get_userImage_def findById_def)
  qed
qed

text \<open>
  C7, as the code has it. For a well-formed identifier the route answers 404 when no
  user has the identifier or the user's image is null or empty. Otherwise it hands to
  \<^verbatim>\<open>res.sendFile\<close> the upload directory joined with the last component of the stored
  value, which has no slash. That path is an entry of the upload directory whenever the
  component is a proper name; when the component is empty or \<^verbatim>\<open>.\<close> the path is the upload
  directory itself, and when it is \<^verbatim>\<open>..\<close> the path is the directory of the script. As
  neither of these two is a regular file, a file that is sent (status 200) is always an
  entry of the upload directory.
\<close>

theorem get_userImage_path:
  assumes d: "is_abs_dir d" and i: "castObjectId (params_id req) = Some i"
  shows "(fmlookup (users w) i = None \<or>
            (\<exists>user. fmlookup (users w) i = Some user \<and> \<not> truthy (image user)) \<longrightarrow>
          get_userImage d req w =
            (\<lparr>status = 404, payload = Json_error ''User not found or image not available''\<rparr>, w)) \<and>
         (\<forall>user p. fmlookup (users w) i = Some user \<and> image user = Some p \<and> p \<noteq> [] \<longrightarrow>
            get_userImage d req w = (sendFile w (imagePath d p), w) \<and>
            CHR ''/'' \<notin> set (basename p) \<and>
            imagePath d p =
              (if basename p = [] \<or> basename p = ''.'' then uploadDir d
               else if basename p = ''..'' then d
               else uploadDir d @ ''/'' @ basename p) \<and>
            (proper_segment (basename p) \<longrightarrow> inside (uploadDir d) (imagePath d p)) \<and>
            (d \<notin> files w \<and> uploadDir d \<notin> files w \<and> status (fst (get_userImage d req w)) = 200 \<longrightarrow>
               inside (uploadDir d) (imagePath d p)))"
proof (intro conjI allI impI)
  assume "fmlookup (users w) i = None \<or>
            (\<exists>user. fmlookup (users w) i = Some user \<and> \<not> truthy (image user))"
  then show "get_userImage d req w =
            (\<lparr>status = 404, payload = Json_error ''User not found or image not available''\<rparr>, w)"
    by (rule get_userImage_absent [OF i])
next
  fix user p
  assume a: "fmlookup (users w) i = Some user \<and> image user = Some p \<and> p \<noteq> []"
  then show g: "get_userImage d req w = (sendFile w (imagePath d p), w)"
    using get_userImage_found [OF i] by blast
  show "CHR ''/'' \<notin> set (basename p)"
    by (rule basename_no_slash)
  show c: "imagePath d p =
              (if basename p = [] \<or> basename p = ''.'' then uploadDir d
               else if basename p = ''..'' then d
               else uploadDir d @ ''/'' @ basename p)"
    by (rule imagePath_cases [OF d])
  have np: "imagePath d p = uploadDir d \<or> imagePath d p = d" if "\<not> proper_segment (basename p)"
    using that c basename_no_slash [of p] by (auto simp: proper_segment_def)
  show "inside (uploadDir d) (imagePath d p)" if "proper_segment (basename p)"
    using that by (rule imagePath_inside [OF d])
  show "inside (uploadDir d) (imagePath d p)"
    if s: "d \<notin> files w \<and> uploadDir d \<notin> files w \<and> status (fst (get_userImage d req w)) = 200"
  proof (cases "proper_segment (basename p)")
    case True
    then show ?thesis by (rule imagePath_inside [OF d])
  next
    case False
    then have "imagePath d p \<notin> files w"
      using np s by auto
    then have "status (fst (get_userImage d req w)) = 500"
      by (simp add: g sendFile_def)
    then show ?thesis using s by simp
  qed
qed

theorem get_userImage_path_witness:
  "get_userImage example_dir (bob_request alice_id) example_world =
     (\<lparr>status = 200, payload = File_body ''/srv/backend/uploads/1730630000123-cat.png''\<rparr>,
      example_world) \<and>
   inside (uploadDir example_dir) ''/srv/backend/uploads/1730630000123-cat.png''"
proof -
  have i: "castObjectId (params_id (bob_request alice_id)) = Some alice_id"
    using cast_alice by (simp add: bob_request_def)
  have a: "image alice = Some ''/uploads/1730630000123-cat.png''"
    by (simp add: alice_def)
  have b: "basename ''/uploads/1730630000123-cat.png'' = ''1730630000123-cat.png''"
    by (simp add: basename_def)
  have q: "proper_segment ''1730630000123-cat.png''"
    by (simp add: proper_segment_def)
  have g: "files example_world = {''/srv/backend/uploads/1730630000123-cat.png''}"
    by (simp add: example_world_def)
  from get_userImage_path [OF example_dir_abs i, of example_world] lookup_alice a
  have t: "get_userImage example_dir (bob_request alice_id) example_world =
          (sendFile example_world (imagePath example_dir ''/uploads/1730630000123-cat.png''),
           example_world)"
    and c: "imagePath example_dir ''/uploads/1730630000123-cat.png'' =
          uploadDir example_dir @ ''/'' @ ''1730630000123-cat.png''"
    and n: "inside (uploadDir example_dir) (imagePath example_dir ''/uploads/1730630000123-cat.png'')"
    using b q by auto
  show ?thesis
    using t c n by (simp add: example_uploadDir sendFile_def g)
qed

text \<open>
  C7 as stated fails: for the stored value \<^verbatim>\<open>/uploads/..\<close> the path handed to
  \<^verbatim>\<open>res.sendFile\<close> is the directory of the script, which is not inside the upload
  directory.
\<close>

theorem get_userImage_path_counterexample:
  "imagePath ''/srv/backend'' ''/uploads/..'' = ''/srv/backend'' \<and>
   \<not> inside (uploadDir ''/srv/backend'') (imagePath ''/srv/backend'' ''/uploads/..'')"
proof -
  have d: "is_abs_dir ''/srv/backend''"
    by (simp add: is_abs_dir_def proper_segment_def)
  have b: "basename ''/uploads/..'' = ''..''"
    by (simp add: basename_def)
  have "imagePath ''/srv/backend'' ''/uploads/..'' = ''/srv/backend''"
    using imagePath_cases [OF d, of "''/uploads/..''"] by (simp add: b)
  then show ?thesis
    using uploadDir_abs [OF d] by (simp add: inside_def)
qed

section \<open>What the upload middleware does to a request\<close>

lemma upload_single_no_part:
  "part req = None \<Longrightarrow> upload_single field d now req w = Inr (req\<lparr>req_file := None\<rparr>, w)"
  by (simp add: upload_single_def)

lemma upload_single_refused:
  assumes "part req = Some f" and "\<not> startsWith (mimetype f) ''image/''"
  shows "upload_single ''image'' d now req w =
           Inl (if fieldname f \<noteq> ''image'' then UnexpectedField else OnlyImageFiles)"
  using assms by (simp add: upload_single_def fileFilter_def)

lemma upload_single_accepted:
  assumes "part req = Some f" and "fieldname f = ''image''"
    and "startsWith (mimetype f) ''image/''" and "uploadDir d \<in> dirs w"
  shows "upload_single ''image'' d now req w =
           Inr (req\<lparr>req_file := Some (storage_filename now f)\<rparr>,
                w\<lparr>files := insert (path_join [uploadDir d, storage_filename now f]) (files w)\<rparr>)"
  using assms by (simp add: upload_single_def fileFilter_def storage_destination_def)

lemma upload_single_isl:
  "isl (upload_single ''image'' d now req w) \<longleftrightarrow>
     (\<exists>f. part req = Some f \<and>
        (fieldname f \<noteq> ''image'' \<or> \<not> startsWith (mimetype f) ''image/'' \<or> uploadDir d \<notin> dirs w))"
proof (cases "part req")
  case None
  then show ?thesis
    by (simp add: upload_single_no_part)
next
  case (Some f)
  show ?thesis
  proof (cases "fieldname f = ''image'' \<and> startsWith (mimetype f) ''image/'' \<and> uploadDir d \<in> dirs w")
    case True
    then show ?thesis
      using Some upload_single_accepted [of req f d w now] by simp
  next
    case False
    then have "isl (upload_single ''image'' d now req w)"
      using Some by (auto simp: upload_single_def fileFilter_def storage_destination_def)
    then show ?thesis
      using Some False by simp
  qed
qed

lemma upload_single_passed:
  assumes "upload_single ''image'' d now req w = Inr (req', w')"
  shows "params_id req' = params_id req \<and> body_username req' = body_username req \<and>
         body_email req' = body_email req \<and> body_password req' = body_password req \<and>
         users w' = users w \<and> dirs w' = dirs w \<and>
         req_file req' = map_option (storage_filename now) (part req)"
proof (cases "part req")
  case None
  then show ?thesis
    using assms by (auto simp: upload_single_no_part)
next
  case (Some f)
  have "\<not> isl (upload_single ''image'' d now req w)"
    using assms by simp
  then have "fieldname f = ''image''" "startsWith (mimetype f) ''image/''" "uploadDir d \<in> dirs w"
    using Some by (auto simp: upload_single_isl)
  then show ?thesis
    using assms Some upload_single_accepted [of req f d w now] by auto
qed

lemma route_put_user_refused:
  "upload_single ''image'' d now req w = Inl err \<Longrightarrow>
   route_put_user b d now req w = (\<lparr>status = 500, payload = Error_page err\<rparr>, w)"
  by (simp add: route_put_user_def default_error_handler_def)

lemma route_put_user_passed:
  "upload_single ''image'' d now req w = Inr (req', w') \<Longrightarrow>
   route_put_user b d now req w = put_user b req' w'"
  by (simp add: route_put_user_def)

lemma route_addUser_refused:
  "upload_single ''image'' d now req w = Inl err \<Longrightarrow>
   route_addUser d now new_id req w = (\<lparr>status = 500, payload = Error_page err\<rparr>, w)"
  by (simp add: route_addUser_def default_error_handler_def)

lemma route_addUser_passed:
  "upload_single ''image'' d now req w = Inr (req', w') \<Longrightarrow>
   route_addUser d now new_id req w = post_addUser new_id req' w'"
  by (simp add: route_addUser_def)

section \<open>Updating a user\<close>

lemma apply_put_update:
  "apply_update b (put_update req) u =
     u\<lparr>username := (case body_username req of None \<Rightarrow> if b then username u else None
                     | Some s \<Rightarrow> Some s),
       email := (case body_email req of None \<Rightarrow> if b then email u else None | Some s \<Rightarrow> Some s),
       password := (case body_password req of None \<Rightarrow> if b then password u else None
                    | Some s \<Rightarrow> Some s),
       image := (case req_file req of None \<Rightarrow> image u | Some fname \<Rightarrow> Some (''/uploads/'' @ fname))\<rparr>"
  by (cases b)
    (simp_all add: apply_update_def put_update_def castUpdate_def set_path_def truthy_def
      split: option.splits)

lemma put_update_text_keys:
  "(''username'', body_username req) \<in> set (put_update req) \<and>
   (''email'', body_email req) \<in> set (put_update req) \<and>
   (''password'', body_password req) \<in> set (put_update req)"
  by (simp add: put_update_def Let_def)

lemma put_update_image_key:
  "''image'' \<in> fst ` set (put_update req) \<longleftrightarrow> req_file req \<noteq> None"
  by (cases "req_file req") (simp_all add: put_update_def Let_def truthy_def)

lemma put_user_malformed:
  "castObjectId (params_id req) = None \<Longrightarrow>
   put_user b req w = (\<lparr>status = 500, payload = Json_error_message CastError\<rparr>, w)"
  by (simp add: put_user_def findByIdAndUpdate_def)

lemma put_user_missing:
  "castObjectId (params_id req) = Some i \<Longrightarrow> fmlookup (users w) i = None \<Longrightarrow>
   put_user b req w = (\<lparr>status = 404, payload = Json_error ''User not found''\<rparr>, w)"
  by (simp add: put_user_def findByIdAndUpdate_def)

lemma put_user_found:
  "castObjectId (params_id req) = Some i \<Longrightarrow> fmlookup (users w) i = Some u \<Longrightarrow>
   put_user b req w =
     (\<lparr>status = 200, payload = Json_user (apply_update b (put_update req) u)\<rparr>,
      w\<lparr>users := fmupd i (apply_update b (put_update req) u) (users w)\<rparr>)"
  by (simp add: put_user_def findByIdAndUpdate_def)

lemma route_put_user_found:
  assumes p: "upload_single ''image'' d now req w = Inr (req', w')"
    and c: "castObjectId (params_id req) = Some i" and f: "fmlookup (users w) i = Some u"
  shows "route_put_user b d now req w =
           (\<lparr>status = 200, payload = Json_user (apply_update b (put_update req') u)\<rparr>,
            w'\<lparr>users := fmupd i (apply_update b (put_update req') u) (users w)\<rparr>)"
proof -
  have c': "castObjectId (params_id req') = Some i" and f': "fmlookup (users w') i = Some u"
    and u: "users w' = users w"
    using upload_single_passed [OF p] c f by simp_all
  show ?thesis
    using put_user_found [OF c' f', of b] route_put_user_passed [OF p, of b] u by simp
qed

lemma route_put_user_missing:
  assumes p: "upload_single ''image'' d now req w = Inr (req', w')"
    and c: "castObjectId (params_id req) = Some i" and f: "fmlookup (users w) i = None"
  shows "route_put_user b d now req w =
           (\<lparr>status = 404, payload = Json_error ''User not found''\<rparr>, w')"
proof -
  have c': "castObjectId (params_id req') = Some i" and f': "fmlookup (users w') i = None"
    using upload_single_passed [OF p] c f by simp_all
  show ?thesis
    using put_user_missing [OF c' f', of b] route_put_user_passed [OF p, of b] by simp
qed

lemma route_put_user_malformed:
  assumes c: "castObjectId (params_id req) = None"
  shows "status (fst (route_put_user b d now req w)) = 500"
proof (cases "upload_single ''image'' d now req w")
  case (Inl err)
  then show ?thesis
    by (simp add: route_put_user_refused)
next
  case (Inr passed)
  obtain req' w' where p: "upload_single ''image'' d now req w = Inr (req', w')"
    using Inr by (cases passed) simp
  have "castObjectId (params_id req') = None"
    using upload_single_passed [OF p] c by simp
  then show ?thesis
    using route_put_user_passed [OF p, of b] by (simp add: put_user_malformed)
qed

text \<open>
  C1, as the code has it, on the route \<^verbatim>\<open>PUT /users/:id\<close> (the upload middleware, then
  the handler). For a request without a file part and a well-formed identifier: when no
  document has the identifier the answer is 404 and nothing changes; when a user has it
  the answer is 200 with the document after the update, which is the document then stored
  under the identifier, and its image is the image stored before. For a request whose
  file part the middleware accepts (field \<^verbatim>\<open>image\<close>, declared type \<^verbatim>\<open>image/...\<close>, upload
  directory on disk) and a well-formed identifier: 404 when no document has it, and
  otherwise 200 with the stored document after the update, whose image is \<^verbatim>\<open>/uploads/\<close>
  followed by the generated name of the new file. A malformed identifier is answered
  with 500, and so is a request whose file part the middleware refuses.
\<close>

theorem put_user_image:
  "(part req = None \<longrightarrow>
      (\<forall>i. castObjectId (params_id req) = Some i \<longrightarrow>
         (fmlookup (users w) i = None \<longrightarrow>
            route_put_user b d now req w =
              (\<lparr>status = 404, payload = Json_error ''User not found''\<rparr>, w)) \<and>
         (\<forall>u. fmlookup (users w) i = Some u \<longrightarrow>
            (\<exists>u'. route_put_user b d now req w =
                    (\<lparr>status = 200, payload = Json_user u'\<rparr>, w\<lparr>users := fmupd i u' (users w)\<rparr>) \<and>
                  image u' = image u)))) \<and>
   (\<forall>f. part req = Some f \<and> fieldname f = ''image'' \<and> startsWith (mimetype f) ''image/'' \<and>
        uploadDir d \<in> dirs w \<longrightarrow>
      (\<forall>i. castObjectId (params_id req) = Some i \<longrightarrow>
         (fmlookup (users w) i = None \<longrightarrow> status (fst (route_put_user b d now req w)) = 404) \<and>
         (\<forall>u. fmlookup (users w) i = Some u \<longrightarrow>
            (\<exists>u' w'. route_put_user b d now req w =
                       (\<lparr>status = 200, payload = Json_user u'\<rparr>, w') \<and>
                     fmlookup (users w') i = Some u' \<and>
                     image u' =
                       Some (''/uploads/'' @ show_nat now @ ''-'' @
                             sanitizeFilename (originalname f)))))) \<and>
   (castObjectId (params_id req) = None \<longrightarrow> status (fst (route_put_user b d now req w)) = 500) \<and>
   (isl (upload_single ''image'' d now req w) \<longrightarrow>
      status (fst (route_put_user b d now req w)) = 500)"
proof (intro conjI allI impI)
  fix i
  assume n: "part req = None" and c: "castObjectId (params_id req) = Some i"
  note p = upload_single_no_part [OF n, of "''image''" d now w]
  show "route_put_user b d now req w =
          (\<lparr>status = 404, payload = Json_error ''User not found''\<rparr>, w)"
    if "fmlookup (users w) i = None"
    by (rule route_put_user_missing [OF p c that])
  fix u
  assume f: "fmlookup (users w) i = Some u"
  let ?u = "apply_update b (put_update (req\<lparr>req_file := None\<rparr>)) u"
  have "image ?u = image u"
    by (simp add: apply_put_update)
  then show "\<exists>u'. route_put_user b d now req w =
                    (\<lparr>status = 200, payload = Json_user u'\<rparr>, w\<lparr>users := fmupd i u' (users w)\<rparr>) \<and>
                  image u' = image u"
    using route_put_user_found [OF p c f, of b] by (intro exI [of _ ?u]) simp
next
  fix f i
  assume a: "part req = Some f \<and> fieldname f = ''image'' \<and> startsWith (mimetype f) ''image/'' \<and>
        uploadDir d \<in> dirs w"
    and c: "castObjectId (params_id req) = Some i"
  let ?req = "req\<lparr>req_file := Some (storage_filename now f)\<rparr>"
  let ?w = "w\<lparr>files := insert (path_join [uploadDir d, storage_filename now f]) (files w)\<rparr>"
  have p: "upload_single ''image'' d now req w = Inr (?req, ?w)"
    using a upload_single_accepted [of req f d w now] by simp
  show "status (fst (route_put_user b d now req w)) = 404" if "fmlookup (users w) i = None"
    by (simp add: route_put_user_missing [OF p c that])
  fix u
  assume f: "fmlookup (users w) i = Some u"
  let ?u = "apply_update b (put_update ?req) u"
  have "image ?u = Some (''/uploads/'' @ show_nat now @ ''-'' @ sanitizeFilename (originalname f))"
    by (simp add: apply_put_update storage_filename_def)
  then show "\<exists>u' w'. route_put_user b d now req w =
                       (\<lparr>status = 200, payload = Json_user u'\<rparr>, w') \<and>
                     fmlookup (users w') i = Some u' \<and>
                     image u' =
                       Some (''/uploads/'' @ show_nat now @ ''-'' @
                             sanitizeFilename (originalname f))"
    using route_put_user_found [OF p c f, of b]
    by (intro exI [of _ ?u] exI [of _ "?w\<lparr>users := fmupd i ?u (users w)\<rparr>"]) simp
next
  assume "castObjectId (params_id req) = None"
  then show "status (fst (route_put_user b d now req w)) = 500"
    by (rule route_put_user_malformed)
next
  assume "isl (upload_single ''image'' d now req w)"
  then obtain err where "upload_single ''image'' d now req w = Inl err"
    by (cases "upload_single ''image'' d now req w") simp_all
  then show "status (fst (route_put_user b d now req w)) = 500"
    by (simp add: route_put_user_refused)
qed

theorem put_user_image_witness:
  "(\<exists>u'. route_put_user True example_dir 1730630000123 (bob_request alice_id) example_world =
           (\<lparr>status = 200, payload = Json_user u'\<rparr>,
            example_world\<lparr>users := fmupd alice_id u' (users example_world)\<rparr>) \<and>
         image u' = Some ''/uploads/1730630000123-cat.png'') \<and>
   (\<exists>u' w'. route_put_user True example_dir 1730630000123
              ((bob_request alice_id)\<lparr>part := Some png_part\<rparr>) example_world =
              (\<lparr>status = 200, payload = Json_user u'\<rparr>, w') \<and>
            fmlookup (users w') alice_id = Some u' \<and>
            image u' = Some ''/uploads/1730630000123-my_cat.png'') \<and>
   route_put_user True example_dir 1730630000123 (bob_request carol_id) example_world =
     (\<lparr>status = 404, payload = Json_error ''User not found''\<rparr>, example_world)"
proof -
  let ?png = "(bob_request alice_id)\<lparr>part := Some png_part\<rparr>"
  have i: "castObjectId (params_id (bob_request alice_id)) = Some alice_id"
    using cast_alice by (simp add: bob_request_def)
  have i': "castObjectId (params_id ?png) = Some alice_id"
    using cast_alice by (simp add: bob_request_def)
  have j: "castObjectId (params_id (bob_request carol_id)) = Some carol_id"
    using cast_carol by (simp add: bob_request_def)
  have n: "part (bob_request alice_id) = None" "part (bob_request carol_id) = None"
    by (simp_all add: bob_request_def)
  have a: "image alice = Some ''/uploads/1730630000123-cat.png''"
    by (simp add: alice_def)
  have g: "part ?png = Some png_part \<and> fieldname png_part = ''image'' \<and>
      startsWith (mimetype png_part) ''image/'' \<and> uploadDir example_dir \<in> dirs example_world"
    by (simp add: png_part_def startsWith_def example_uploadDir example_world_def)
  have s: "show_nat 1730630000123 @ ''-'' @ sanitizeFilename (originalname png_part) =
      ''1730630000123-my_cat.png''"
    by (simp add: show_nat.simps digit_char_def png_part_def sanitizeFilename_def invalid_chars_def)
  have t1: "\<exists>u'. route_put_user True example_dir 1730630000123 (bob_request alice_id) example_world =
           (\<lparr>status = 200, payload = Json_user u'\<rparr>,
            example_world\<lparr>users := fmupd alice_id u' (users example_world)\<rparr>) \<and>
         image u' = Some ''/uploads/1730630000123-cat.png''"
    using put_user_image [where req = "bob_request alice_id" and w = example_world and b = True
        and d = example_dir and now = 1730630000123]
      n(1) i lookup_alice a by simp
  have t2: "\<exists>u' w'. route_put_user True example_dir 1730630000123 ?png example_world =
              (\<lparr>status = 200, payload = Json_user u'\<rparr>, w') \<and>
            fmlookup (users w') alice_id = Some u' \<and>
            image u' = Some (''/uploads/'' @ show_nat 1730630000123 @ ''-'' @
                             sanitizeFilename (originalname png_part))"
    using put_user_image [where req = ?png and w = example_world and b = True
        and d = example_dir and now = 1730630000123]
      g i' lookup_alice by blast
  have t3: "route_put_user True example_dir 1730630000123 (bob_request carol_id) example_world =
     (\<lparr>status = 404, payload = Json_error ''User not found''\<rparr>, example_world)"
    using put_user_image [where req = "bob_request carol_id" and w = example_world and b = True
        and d = example_dir and now = 1730630000123]
      n(2) j lookup_carol by simp
  have "''/uploads/'' @ show_nat 1730630000123 @ ''-'' @ sanitizeFilename (originalname png_part) =
      ''/uploads/1730630000123-my_cat.png''"
    using s by simp
  then show ?thesis
    using t1 t2 t3 by simp
qed

text \<open>
  C1 as stated fails on ``returns the post-update record, or not-found if no record has
  that id'': no record has the identifier \<^verbatim>\<open>abc\<close>, and the update answers 500, not 404;
  and for the identifier of a stored user, a request with a file part of type
  \<^verbatim>\<open>text/plain\<close> is answered 500 by the upload middleware, not with the record.
\<close>

theorem put_user_image_counterexample:
  "fmlookup (users example_world) ''abc'' = None \<and>
   route_put_user True example_dir 1730630000123 (bob_request ''abc'') example_world =
     (\<lparr>status = 500, payload = Json_error_message CastError\<rparr>, example_world) \<and>
   fmlookup (users example_world) alice_id = Some alice \<and>
   route_put_user True example_dir 1730630000123
     ((bob_request alice_id)\<lparr>part := Some text_part\<rparr>) example_world =
     (\<lparr>status = 500, payload = Error_page OnlyImageFiles\<rparr>, example_world)"
proof -
  have "fmlookup (users example_world) ''abc'' = None"
    by (simp add: example_world_def alice_id_def)
  moreover have "castObjectId (params_id (bob_request ''abc'')) = None"
    by (simp add: bob_request_def castObjectId_def)
  then have "put_user True ((bob_request ''abc'')\<lparr>req_file := None\<rparr>) example_world =
      (\<lparr>status = 500, payload = Json_error_message CastError\<rparr>, example_world)"
    by (simp add: put_user_malformed)
  then have "route_put_user True example_dir 1730630000123 (bob_request ''abc'') example_world =
     (\<lparr>status = 500, payload = Json_error_message CastError\<rparr>, example_world)"
    using upload_single_no_part [of "bob_request ''abc''" "''image''" example_dir 1730630000123
        example_world]
    by (simp add: route_put_user_def bob_request_def)
  moreover have "upload_single ''image'' example_dir 1730630000123
      ((bob_request alice_id)\<lparr>part := Some text_part\<rparr>) example_world = Inl OnlyImageFiles"
    using upload_single_refused [of "(bob_request alice_id)\<lparr>part := Some text_part\<rparr>" text_part
        example_dir 1730630000123 example_world]
    by (simp add: text_part_def startsWith_def)
  then have "route_put_user True example_dir 1730630000123
     ((bob_request alice_id)\<lparr>part := Some text_part\<rparr>) example_world =
     (\<lparr>status = 500, payload = Error_page OnlyImageFiles\<rparr>, example_world)"
    by (rule route_put_user_refused)
  ultimately show ?thesis
    using lookup_alice by simp
qed

lemma route_put_user_bob_alice:
  "route_put_user b example_dir 1730630000123 (bob_request alice_id) example_world =
     (\<lparr>status = 200,
       payload = Json_user (apply_update b (put_update (bob_request alice_id)) alice)\<rparr>,
      example_world\<lparr>users :=
        fmupd alice_id (apply_update b (put_update (bob_request alice_id)) alice)
          (users example_world)\<rparr>)"
proof -
  have n: "part (bob_request alice_id) = None"
    by (simp add: bob_request_def)
  have e: "(bob_request alice_id)\<lparr>req_file := None\<rparr> = bob_request alice_id"
    by (simp add: bob_request_def)
  have i: "castObjectId (params_id (bob_request alice_id)) = Some alice_id"
    using cast_alice by (simp add: bob_request_def)
  show ?thesis
    using route_put_user_found [OF upload_single_no_part [OF n] i lookup_alice, of b example_dir
        1730630000123]
    by (simp add: e)
qed

text \<open>
  C10, as the code and the library have it. The handler puts each of the three text
  fields into the update object, with the value \<^verbatim>\<open>undefined\<close> when the field is absent
  from the body. After a successful update (200) of a stored user, the answer is the
  stored document after the update, and a text field absent from the body has in it the
  value it had before when the library's cast removes \<^verbatim>\<open>undefined\<close> entries
  (\<open>omitUndefined\<close>), and is \<^verbatim>\<open>null\<close> when the cast writes them.
\<close>

theorem put_user_absent_text_fields:
  assumes c: "castObjectId (params_id req) = Some i" and f: "fmlookup (users w) i = Some u"
    and s: "status (fst (route_put_user omitUndefined d now req w)) = 200"
  shows "(''username'', body_username req) \<in> set (put_update req) \<and>
         (''email'', body_email req) \<in> set (put_update req) \<and>
         (''password'', body_password req) \<in> set (put_update req) \<and>
         (\<exists>u'. fst (route_put_user omitUndefined d now req w) =
                 \<lparr>status = 200, payload = Json_user u'\<rparr> \<and>
               fmlookup (users (snd (route_put_user omitUndefined d now req w))) i = Some u' \<and>
               (body_username req = None \<longrightarrow>
                  username u' = (if omitUndefined then username u else None)) \<and>
               (body_email req = None \<longrightarrow>
                  email u' = (if omitUndefined then email u else None)) \<and>
               (body_password req = None \<longrightarrow>
                  password u' = (if omitUndefined then password u else None)))"
proof -
  have "\<not> isl (upload_single ''image'' d now req w)"
  proof
    assume "isl (upload_single ''image'' d now req w)"
    then obtain err where "upload_single ''image'' d now req w = Inl err"
      by (cases "upload_single ''image'' d now req w") simp_all
    then have "status (fst (route_put_user omitUndefined d now req w)) = 500"
      by (simp add: route_put_user_refused)
    then show False
      using s by simp
  qed
  then obtain req' w' where p: "upload_single ''image'' d now req w = Inr (req', w')"
    by (cases "upload_single ''image'' d now req w") auto
  let ?u = "apply_update omitUndefined (put_update req') u"
  note r = route_put_user_found [OF p c f, of omitUndefined]
  have b: "body_username req' = body_username req" "body_email req' = body_email req"
    "body_password req' = body_password req"
    using upload_single_passed [OF p] by simp_all
  have "fst (route_put_user omitUndefined d now req w) = \<lparr>status = 200, payload = Json_user ?u\<rparr>"
    and "fmlookup (users (snd (route_put_user omitUndefined d now req w))) i = Some ?u"
    by (simp_all add: r)
  moreover have "body_username req = None \<longrightarrow>
      username ?u = (if omitUndefined then username u else None)"
    and "body_email req = None \<longrightarrow> email ?u = (if omitUndefined then email u else None)"
    and "body_password req = None \<longrightarrow>
      password ?u = (if omitUndefined then password u else None)"
    by (simp_all add: apply_put_update b)
  ultimately have "\<exists>u'. fst (route_put_user omitUndefined d now req w) =
                 \<lparr>status = 200, payload = Json_user u'\<rparr> \<and>
               fmlookup (users (snd (route_put_user omitUndefined d now req w))) i = Some u' \<and>
               (body_username req = None \<longrightarrow>
                  username u' = (if omitUndefined then username u else None)) \<and>
               (body_email req = None \<longrightarrow>
                  email u' = (if omitUndefined then email u else None)) \<and>
               (body_password req = None \<longrightarrow>
                  password u' = (if omitUndefined then password u else None))"
    by (intro exI [of _ ?u] conjI)
  then show ?thesis
    using put_update_text_keys [of req] by simp
qed

theorem put_user_absent_text_fields_witness:
  "\<exists>u'. fst (route_put_user True example_dir 1730630000123 (bob_request alice_id) example_world) =
           \<lparr>status = 200, payload = Json_user u'\<rparr> \<and>
         fmlookup (users (snd (route_put_user True example_dir 1730630000123 (bob_request alice_id)
                                 example_world))) alice_id = Some u' \<and>
         email u' = Some ''a@x.com'' \<and> password u' = Some ''p''"
proof -
  have i: "castObjectId (params_id (bob_request alice_id)) = Some alice_id"
    using cast_alice by (simp add: bob_request_def)
  have s: "status (fst (route_put_user True example_dir 1730630000123 (bob_request alice_id)
      example_world)) = 200"
    by (simp add: route_put_user_bob_alice)
  have e: "body_email (bob_request alice_id) = None" "body_password (bob_request alice_id) = None"
    by (simp_all add: bob_request_def)
  have a: "email alice = Some ''a@x.com''" "password alice = Some ''p''"
    by (simp_all add: alice_def)
  from put_user_absent_text_fields [OF i lookup_alice s] obtain u' where
    "fst (route_put_user True example_dir 1730630000123 (bob_request alice_id) example_world) =
           \<lparr>status = 200, payload = Json_user u'\<rparr>"
    "fmlookup (users (snd (route_put_user True example_dir 1730630000123 (bob_request alice_id)
                                 example_world))) alice_id = Some u'"
    "email u' = email alice" "password u' = password alice"
    using e by auto
  then show ?thesis
    using a by (intro exI [of _ u']) simp
qed

text \<open>
  C10 as stated fails when the cast writes \<^verbatim>\<open>undefined\<close> entries: a request whose body
  has only \<^verbatim>\<open>username\<close> is answered 200, and the stored \<^verbatim>\<open>email\<close>, which was
  \<^verbatim>\<open>a@x.com\<close>, is \<^verbatim>\<open>null\<close> after it.
\<close>

theorem put_user_absent_text_fields_counterexample:
  "body_email (bob_request alice_id) = None \<and>
   email alice = Some ''a@x.com'' \<and>
   route_put_user False example_dir 1730630000123 (bob_request alice_id) example_world =
     (\<lparr>status = 200,
       payload = Json_user (alice\<lparr>username := Some ''bob'', email := None, password := None\<rparr>)\<rparr>,
      example_world\<lparr>users :=
        fmupd alice_id (alice\<lparr>username := Some ''bob'', email := None, password := None\<rparr>)
          (users example_world)\<rparr>)"
proof -
  have "apply_update False (put_update (bob_request alice_id)) alice =
      alice\<lparr>username := Some ''bob'', email := None, password := None\<rparr>"
    by (simp add: apply_put_update bob_request_def)
  then show ?thesis
    by (simp add: route_put_user_bob_alice) (simp add: bob_request_def alice_def)
qed

section \<open>Status codes of the routes\<close>

lemma get_user_malformed:
  "castObjectId (params_id req) = None \<Longrightarrow>
   get_user req w = (\<lparr>status = 500, payload = Json_error_message CastError\<rparr>, w)"
  by (simp add: get_user_def findById_def)

lemma get_user_missing:
  "castObjectId (params_id req) = Some i \<Longrightarrow> fmlookup (users w) i = None \<Longrightarrow>
   get_user req w = (\<lparr>status = 404, payload = Json_error ''User not found''\<rparr>, w)"
  by (simp add: get_user_def findById_def)

lemma get_user_found:
  "castObjectId (params_id req) = Some i \<Longrightarrow> fmlookup (users w) i = Some u \<Longrightarrow>
   get_user req w = (\<lparr>status = 200, payload = Json_user u\<rparr>, w)"
  by (simp add: get_user_def findById_def)

lemma delete_user_malformed:
  "castObjectId (params_id req) = None \<Longrightarrow>
   delete_user req w = (\<lparr>status = 500, payload = Json_error_message CastError\<rparr>, w)"
  by (simp add: delete_user_def findByIdAndDelete_def)

lemma delete_user_missing:
  "castObjectId (params_id req) = Some i \<Longrightarrow> fmlookup (users w) i = None \<Longrightarrow>
   delete_user req w = (\<lparr>status = 404, payload = Json_error ''User not found''\<rparr>, w)"
  by (simp add: delete_user_def findByIdAndDelete_def)

lemma delete_user_found:
  "castObjectId (params_id req) = Some i \<Longrightarrow> fmlookup (users w) i = Some u \<Longrightarrow>
   delete_user req w =
     (\<lparr>status = 200, payload = Json_message ''User deleted successfully''\<rparr>,
      w\<lparr>users := fmdrop i (users w)\<rparr>)"
  by (simp add: delete_user_def findByIdAndDelete_def)

lemma post_addUser_saved:
  assumes "truthy (body_username req)" and "truthy (body_email req)"
    and "truthy (body_password req)" and "fmlookup (users w) new_id = None"
  shows "post_addUser new_id req w =
     (\<lparr>status = 201,
       payload = Json_user \<lparr>uid = new_id, username = body_username req, email = body_email req,
                  password = body_password req,
                  image = (case req_file req of Some fname \<Rightarrow> Some (''/uploads/'' @ fname)
                           | None \<Rightarrow> None)\<rparr>\<rparr>,
      w\<lparr>users := fmupd new_id
           \<lparr>uid = new_id, username = body_username req, email = body_email req,
             password = body_password req,
             image = (case req_file req of Some fname \<Rightarrow> Some (''/uploads/'' @ fname)
                      | None \<Rightarrow> None)\<rparr> (users w)\<rparr>)"
  using assms by (simp add: post_addUser_def save_def required_ok_def Let_def)

lemma post_addUser_refused:
  assumes "\<not> (truthy (body_username req) \<and> truthy (body_email req) \<and>
              truthy (body_password req) \<and> fmlookup (users w) new_id = None)"
  shows "status (fst (post_addUser new_id req w)) = 500 \<and> snd (post_addUser new_id req w) = w"
  using assms by (auto simp: post_addUser_def save_def required_ok_def Let_def)

lemma route_put_user_status:
  assumes c: "castObjectId (params_id req) = Some i"
  shows "status (fst (route_put_user b d now req w)) =
           (if isl (upload_single ''image'' d now req w) then 500
            else if fmlookup (users w) i = None then 404 else 200)"
proof (cases "upload_single ''image'' d now req w")
  case (Inl err)
  then show ?thesis
    by (simp add: route_put_user_refused)
next
  case (Inr passed)
  obtain req' w' where p: "upload_single ''image'' d now req w = Inr (req', w')"
    using Inr by (cases passed) simp
  show ?thesis
  proof (cases "fmlookup (users w) i")
    case None
    then show ?thesis
      using p by (simp add: route_put_user_missing [OF p c None])
  next
    case (Some u)
    then show ?thesis
      using p by (simp add: route_put_user_found [OF p c Some])
  qed
qed

lemma route_addUser_status:
  "status (fst (route_addUser d now new_id req w)) =
     (if isl (upload_single ''image'' d now req w) then 500
      else if truthy (body_username req) \<and> truthy (body_email req) \<and>
              truthy (body_password req) \<and> fmlookup (users w) new_id = None
      then 201 else 500)"
proof (cases "upload_single ''image'' d now req w")
  case (Inl err)
  then show ?thesis
    by (simp add: route_addUser_refused)
next
  case (Inr passed)
  obtain req' w' where p: "upload_single ''image'' d now req w = Inr (req', w')"
    using Inr by (cases passed) simp
  note q = upload_single_passed [OF p]
  show ?thesis
  proof (cases "truthy (body_username req) \<and> truthy (body_email req) \<and>
      truthy (body_password req) \<and> fmlookup (users w) new_id = None")
    case True
    then have "status (fst (post_addUser new_id req' w')) = 201"
      using post_addUser_saved [of req' w' new_id] q by simp
    then show ?thesis
      using True p by (simp add: route_addUser_passed [OF p])
  next
    case False
    then have "status (fst (post_addUser new_id req' w')) = 500"
      using post_addUser_refused [of req' w' new_id] q by simp
    then show ?thesis
      using False p by (simp add: route_addUser_passed [OF p])
  qed
qed

text \<open>
  C2, as the code has it. Take a well-formed identifier. When no stored record has it,
  get-by-id, delete-by-id and get-user-image answer 404, hence not 500, and so does
  update-by-id unless the upload middleware refuses the request, which is then answered
  500 before the handler runs. When a record has it, get-by-id and delete-by-id answer
  200, update-by-id answers 200 unless the middleware refuses the request (500), and
  get-user-image answers 200 when the file of the user's image is on disk. The list of
  all users is answered with 200. Creating a user answers 201 when the middleware passes
  the request and the record is saved (the three required fields are non-empty and the
  new identifier is free), and 500 otherwise. The middleware refuses a request exactly
  when it carries a file part under another field than \<^verbatim>\<open>image\<close>, or of a declared type
  that does not begin with \<^verbatim>\<open>image/\<close>, or when the upload directory is not on disk.
\<close>

theorem status_codes:
  "(\<forall>i. castObjectId (params_id req) = Some i \<and> fmlookup (users w) i = None \<longrightarrow>
      status (fst (get_user req w)) = 404 \<and>
      status (fst (delete_user req w)) = 404 \<and>
      status (fst (get_userImage d req w)) = 404 \<and>
      status (fst (route_put_user omitUndefined d now req w)) =
        (if isl (upload_single ''image'' d now req w) then 500 else 404)) \<and>
   (\<forall>i u. castObjectId (params_id req) = Some i \<and> fmlookup (users w) i = Some u \<longrightarrow>
      status (fst (get_user req w)) = 200 \<and>
      status (fst (delete_user req w)) = 200 \<and>
      status (fst (route_put_user omitUndefined d now req w)) =
        (if isl (upload_single ''image'' d now req w) then 500 else 200) \<and>
      (\<forall>p. image u = Some p \<and> p \<noteq> [] \<and> imagePath d p \<in> files w \<longrightarrow>
         status (fst (get_userImage d req w)) = 200)) \<and>
   status (fst (get_users w)) = 200 \<and>
   status (fst (route_addUser d now new_id req w)) =
     (if isl (upload_single ''image'' d now req w) then 500
      else if truthy (body_username req) \<and> truthy (body_email req) \<and>
              truthy (body_password req) \<and> fmlookup (users w) new_id = None
      then 201 else 500) \<and>
   (isl (upload_single ''image'' d now req w) \<longleftrightarrow>
      (\<exists>f. part req = Some f \<and>
         (fieldname f \<noteq> ''image'' \<or> \<not> startsWith (mimetype f) ''image/'' \<or>
          uploadDir d \<notin> dirs w)))"
proof (intro conjI allI impI)
  fix i
  assume a: "castObjectId (params_id req) = Some i \<and> fmlookup (users w) i = None"
  then have c: "castObjectId (params_id req) = Some i" and n: "fmlookup (users w) i = None"
    by simp_all
  show "status (fst (get_user req w)) = 404"
    by (simp add: get_user_missing [OF c n])
  show "status (fst (delete_user req w)) = 404"
    by (simp add: delete_user_missing [OF c n])
  show "status (fst (get_userImage d req w)) = 404"
    using get_userImage_absent [OF c, of w d] n by simp
  show "status (fst (route_put_user omitUndefined d now req w)) =
        (if isl (upload_single ''image'' d now req w) then 500 else 404)"
    using route_put_user_status [OF c, of omitUndefined d now w] n by simp
next
  fix i u
  assume a: "castObjectId (params_id req) = Some i \<and> fmlookup (users w) i = Some u"
  then have c: "castObjectId (params_id req) = Some i" and f: "fmlookup (users w) i = Some u"
    by simp_all
  show "status (fst (get_user req w)) = 200"
    by (simp add: get_user_found [OF c f])
  show "status (fst (delete_user req w)) = 200"
    by (simp add: delete_user_found [OF c f])
  show "status (fst (route_put_user omitUndefined d now req w)) =
        (if isl (upload_single ''image'' d now req w) then 500 else 200)"
    using route_put_user_status [OF c, of omitUndefined d now w] f by simp
  fix p
  assume "image u = Some p \<and> p \<noteq> [] \<and> imagePath d p \<in> files w"
  then show "status (fst (get_userImage d req w)) = 200"
    using get_userImage_found [OF c f, of p d] by (simp add: sendFile_def)
next
  show "status (fst (get_users w)) = 200"
    by (simp add: get_users_def)
next
  show "status (fst (route_addUser d now new_id req w)) =
     (if isl (upload_single ''image'' d now req w) then 500
      else if truthy (body_username req) \<and> truthy (body_email req) \<and>
              truthy (body_password req) \<and> fmlookup (users w) new_id = None
      then 201 else 500)"
    by (rule route_addUser_status)
next
  show "isl (upload_single ''image'' d now req w) \<longleftrightarrow>
      (\<exists>f. part req = Some f \<and>
         (fieldname f \<noteq> ''image'' \<or> \<not> startsWith (mimetype f) ''image/'' \<or>
          uploadDir d \<notin> dirs w))"
    by (rule upload_single_isl)
qed

theorem status_codes_witness:
  "status (fst (get_user (bob_request carol_id) example_world)) = 404 \<and>
   status (fst (delete_user (bob_request carol_id) example_world)) = 404 \<and>
   status (fst (get_userImage example_dir (bob_request carol_id) example_world)) = 404 \<and>
   status (fst (route_put_user True example_dir 1730630000123 (bob_request carol_id)
                  example_world)) = 404 \<and>
   status (fst (get_user (bob_request alice_id) example_world)) = 200 \<and>
   status (fst (delete_user (bob_request alice_id) example_world)) = 200 \<and>
   status (fst (route_put_user True example_dir 1730630000123 (bob_request alice_id)
                  example_world)) = 200 \<and>
   status (fst (route_addUser example_dir 1730630000123 carol_id carol_request example_world)) = 201"
proof -
  have i: "castObjectId (params_id (bob_request alice_id)) = Some alice_id"
    using cast_alice by (simp add: bob_request_def)
  have j: "castObjectId (params_id (bob_request carol_id)) = Some carol_id"
    using cast_carol by (simp add: bob_request_def)
  have t: "truthy (body_username carol_request) \<and> truthy (body_email carol_request) \<and>
      truthy (body_password carol_request)"
    by (simp add: carol_request_def truthy_def)
  have n: "\<not> isl (upload_single ''image'' example_dir 1730630000123 (bob_request alice_id)
      example_world)"
    "\<not> isl (upload_single ''image'' example_dir 1730630000123 (bob_request carol_id)
      example_world)"
    "\<not> isl (upload_single ''image'' example_dir 1730630000123 carol_request example_world)"
    by (simp_all add: upload_single_no_part bob_request_def carol_request_def)
  have "status (fst (route_addUser example_dir 1730630000123 carol_id carol_request
      example_world)) = 201"
    using status_codes [where req = carol_request and w = example_world and d = example_dir
        and now = 1730630000123 and new_id = carol_id] t lookup_carol n(3)
    by simp
  moreover have "status (fst (get_user (bob_request carol_id) example_world)) = 404 \<and>
      status (fst (delete_user (bob_request carol_id) example_world)) = 404 \<and>
      status (fst (get_userImage example_dir (bob_request carol_id) example_world)) = 404 \<and>
      status (fst (route_put_user True example_dir 1730630000123 (bob_request carol_id)
                  example_world)) = 404"
    using status_codes [where req = "bob_request carol_id" and w = example_world
        and d = example_dir and now = 1730630000123 and omitUndefined = True]
      j lookup_carol n(2) by simp
  moreover have "status (fst (get_user (bob_request alice_id) example_world)) = 200 \<and>
      status (fst (delete_user (bob_request alice_id) example_world)) = 200 \<and>
      status (fst (route_put_user True example_dir 1730630000123 (bob_request alice_id)
                  example_world)) = 200"
    using status_codes [where req = "bob_request alice_id" and w = example_world
        and d = example_dir and now = 1730630000123 and omitUndefined = True]
      i lookup_alice n(1) by simp
  ultimately show ?thesis by simp
qed

text \<open>
  C2 as stated fails for update-by-id: the identifier is well-formed and no record has
  it, the request carries a file part of type \<^verbatim>\<open>text/plain\<close>, and the answer is 500.
\<close>

theorem status_codes_counterexample:
  "castObjectId carol_id = Some carol_id \<and>
   fmlookup (users example_world) carol_id = None \<and>
   route_put_user True example_dir 1730630000123
     ((bob_request carol_id)\<lparr>part := Some text_part\<rparr>) example_world =
     (\<lparr>status = 500, payload = Error_page OnlyImageFiles\<rparr>, example_world)"
proof -
  have "upload_single ''image'' example_dir 1730630000123
      ((bob_request carol_id)\<lparr>part := Some text_part\<rparr>) example_world = Inl OnlyImageFiles"
    using upload_single_refused [of "(bob_request carol_id)\<lparr>part := Some text_part\<rparr>" text_part
        example_dir 1730630000123 example_world]
    by (simp add: text_part_def startsWith_def)
  then have "route_put_user True example_dir 1730630000123
     ((bob_request carol_id)\<lparr>part := Some text_part\<rparr>) example_world =
     (\<lparr>status = 500, payload = Error_page OnlyImageFiles\<rparr>, example_world)"
    by (rule route_put_user_refused)
  then show ?thesis
    using cast_carol lookup_carol by simp
qed

section \<open>Refused uploads\<close>

text \<open>
  C3. When the request carries a file part whose declared type does not begin with
  \<^verbatim>\<open>image/\<close>, the upload middleware ends with an error before anything is stored: the
  state after the request is the state before it, so no file is written and no user is
  created, and the client receives the error response of the framework (status 500,
  never 201), on \<^verbatim>\<open>POST /addUser\<close> as on \<^verbatim>\<open>PUT /users/:id\<close>. For a part under the
  field \<^verbatim>\<open>image\<close> the error is the one the file filter raises.
\<close>

theorem non_image_upload_rejected:
  assumes "part req = Some f" and "\<not> startsWith (mimetype f) ''image/''"
  shows "\<exists>err. upload_single ''image'' d now req w = Inl err \<and>
           route_addUser d now new_id req w = (\<lparr>status = 500, payload = Error_page err\<rparr>, w) \<and>
           route_put_user omitUndefined d now req w =
             (\<lparr>status = 500, payload = Error_page err\<rparr>, w) \<and>
           (fieldname f = ''image'' \<longrightarrow> fileFilter f = Inl OnlyImageFiles \<and> err = OnlyImageFiles)"
proof (intro exI conjI impI)
  let ?err = "if fieldname f \<noteq> ''image'' then UnexpectedField else OnlyImageFiles"
  show u: "upload_single ''image'' d now req w = Inl ?err"
    by (rule upload_single_refused [OF assms])
  show "route_addUser d now new_id req w = (\<lparr>status = 500, payload = Error_page ?err\<rparr>, w)"
    by (rule route_addUser_refused [OF u])
  show "route_put_user omitUndefined d now req w =
      (\<lparr>status = 500, payload = Error_page ?err\<rparr>, w)"
    by (rule route_put_user_refused [OF u])
  show "fileFilter f = Inl OnlyImageFiles"
    using assms(2) by (simp add: fileFilter_def)
  show "?err = OnlyImageFiles" if "fieldname f = ''image''"
    using that by simp
qed

theorem non_image_upload_rejected_witness:
  "route_addUser example_dir 1730630000123 carol_id (carol_request\<lparr>part := Some text_part\<rparr>)
     example_world =
   (\<lparr>status = 500, payload = Error_page OnlyImageFiles\<rparr>, example_world)"
proof -
  have p: "part (carol_request\<lparr>part := Some text_part\<rparr>) = Some text_part"
    by simp
  have m: "\<not> startsWith (mimetype text_part) ''image/''"
    by (simp add: text_part_def startsWith_def)
  have f: "fieldname text_part = ''image''"
    by (simp add: text_part_def)
  show ?thesis
    using non_image_upload_rejected [OF p m, where d = example_dir and now = 1730630000123
        and w = example_world and new_id = carol_id] f
    by auto
qed

section \<open>Deleting a user\<close>

text \<open>
  C5. If delete-by-id answers with its success acknowledgment (200) for an identifier,
  then the identifier is well-formed and had a record, the state after the deletion is
  the state before it without that record (the files and directories on disk are the
  same), and get-by-id for the same identifier in the state after the deletion answers
  not-found.
\<close>

theorem delete_then_get:
  assumes "status (fst (delete_user req w)) = 200" and "params_id req' = params_id req"
  shows "\<exists>i u. castObjectId (params_id req) = Some i \<and> fmlookup (users w) i = Some u \<and>
           snd (delete_user req w) = w\<lparr>users := fmdrop i (users w)\<rparr> \<and>
           files (snd (delete_user req w)) = files w \<and>
           dirs (snd (delete_user req w)) = dirs w \<and>
           get_user req' (snd (delete_user req w)) =
             (\<lparr>status = 404, payload = Json_error ''User not found''\<rparr>, snd (delete_user req w))"
proof (cases "castObjectId (params_id req)")
  case None
  then show ?thesis
    using assms(1) by (simp add: delete_user_malformed)
next
  case (Some i)
  show ?thesis
  proof (cases "fmlookup (users w) i")
    case None
    then show ?thesis
      using assms(1) Some by (simp add: delete_user_missing)
  next
    case (Some u)
    note c = \<open>castObjectId (params_id req) = Some i\<close>
    have d: "delete_user req w =
        (\<lparr>status = 200, payload = Json_message ''User deleted successfully''\<rparr>,
         w\<lparr>users := fmdrop i (users w)\<rparr>)"
      by (rule delete_user_found [OF c Some])
    have c': "castObjectId (params_id req') = Some i"
      using c assms(2) by simp
    have "fmlookup (users (w\<lparr>users := fmdrop i (users w)\<rparr>)) i = None"
      by simp
    then have g: "get_user req' (w\<lparr>users := fmdrop i (users w)\<rparr>) =
        (\<lparr>status = 404, payload = Json_error ''User not found''\<rparr>, w\<lparr>users := fmdrop i (users w)\<rparr>)"
      by (rule get_user_missing [OF c'])
    show ?thesis
      using c Some g by (intro exI [of _ i] exI [of _ u]) (simp add: d)
  qed
qed

theorem delete_then_get_witness:
  "status (fst (delete_user (bob_request alice_id) example_world)) = 200 \<and>
   files (snd (delete_user (bob_request alice_id) example_world)) =
     {''/srv/backend/uploads/1730630000123-cat.png''} \<and>
   status (fst (get_user (bob_request alice_id)
                  (snd (delete_user (bob_request alice_id) example_world)))) = 404"
proof -
  have i: "castObjectId (params_id (bob_request alice_id)) = Some alice_id"
    using cast_alice by (simp add: bob_request_def)
  have s: "status (fst (delete_user (bob_request alice_id) example_world)) = 200"
    by (simp add: delete_user_found [OF i lookup_alice])
  have g: "files example_world = {''/srv/backend/uploads/1730630000123-cat.png''}"
    by (simp add: example_world_def)
  from delete_then_get [OF s refl] obtain j u where
    f: "files (snd (delete_user (bob_request alice_id) example_world)) = files example_world"
    and n: "get_user (bob_request alice_id) (snd (delete_user (bob_request alice_id) example_world)) =
        (\<lparr>status = 404, payload = Json_error ''User not found''\<rparr>,
         snd (delete_user (bob_request alice_id) example_world))"
    by blast
  show ?thesis
    by (simp add: s f g n)
qed

section \<open>Listing the users\<close>

lemma usersWithImage_image:
  "image u = Some p \<Longrightarrow> p \<noteq> [] \<Longrightarrow>
   usersWithImage u = u\<lparr>image := Some (''http://localhost:8080'' @ p)\<rparr>"
  by (simp add: usersWithImage_def truthy_def)

lemma usersWithImage_none: "\<not> truthy (image u) \<Longrightarrow> usersWithImage u = u"
  by (simp add: usersWithImage_def)

text \<open>
  C6. The list of all users leaves the state as it was. For every stored user whose
  image is a non-empty path \<open>p\<close>, the answer contains that user with the image
  \<^verbatim>\<open>http://localhost:8080\<close> followed by \<open>p\<close>, while the document in the collection
  after the request still has the relative path; a user without an image is in the
  answer unchanged.
\<close>

theorem get_users_rewrites_response_only:
  "snd (get_users w) = w \<and>
   (\<exists>us. fst (get_users w) = \<lparr>status = 200, payload = Json_users us\<rparr> \<and>
      (\<forall>i u p. fmlookup (users w) i = Some u \<and> image u = Some p \<and> p \<noteq> [] \<longrightarrow>
         u\<lparr>image := Some (''http://localhost:8080'' @ p)\<rparr> |\<in>| us \<and>
         fmlookup (users (snd (get_users w))) i = Some u) \<and>
      (\<forall>i u. fmlookup (users w) i = Some u \<and> \<not> truthy (image u) \<longrightarrow> u |\<in>| us))"
proof (intro conjI exI allI impI)
  show "snd (get_users w) = w"
    by (simp add: get_users_def)
  show "fst (get_users w) =
          \<lparr>status = 200, payload = Json_users (usersWithImage |`| fmran (users w))\<rparr>"
    by (simp add: get_users_def find_all_def)
next
  fix i u p
  assume a: "fmlookup (users w) i = Some u \<and> image u = Some p \<and> p \<noteq> []"
  then have "u |\<in>| fmran (users w)"
    by (auto intro: fmranI)
  then have "usersWithImage u |\<in>| usersWithImage |`| fmran (users w)"
    by (rule fimageI)
  then show "u\<lparr>image := Some (''http://localhost:8080'' @ p)\<rparr> |\<in>| usersWithImage |`| fmran (users w)"
    using a usersWithImage_image [of u p] by simp
  show "fmlookup (users (snd (get_users w))) i = Some u"
    using a by (simp add: get_users_def)
next
  fix i u
  assume a: "fmlookup (users w) i = Some u \<and> \<not> truthy (image u)"
  then have "u |\<in>| fmran (users w)"
    by (auto intro: fmranI)
  then have "usersWithImage u |\<in>| usersWithImage |`| fmran (users w)"
    by (rule fimageI)
  then show "u |\<in>| usersWithImage |`| fmran (users w)"
    using a usersWithImage_none [of u] by simp
qed

theorem get_users_rewrites_response_only_witness:
  "snd (get_users example_world) = example_world \<and>
   (\<exists>us. fst (get_users example_world) = \<lparr>status = 200, payload = Json_users us\<rparr> \<and>
      alice\<lparr>image := Some ''http://localhost:8080/uploads/1730630000123-cat.png''\<rparr> |\<in>| us) \<and>
   fmlookup (users (snd (get_users example_world))) alice_id = Some alice"
proof -
  have a: "image alice = Some ''/uploads/1730630000123-cat.png''"
    by (simp add: alice_def)
  from get_users_rewrites_response_only [of example_world] obtain us where
    s: "snd (get_users example_world) = example_world"
    and f: "fst (get_users example_world) = \<lparr>status = 200, payload = Json_users us\<rparr>"
    and r: "\<forall>i u p. fmlookup (users example_world) i = Some u \<and> image u = Some p \<and> p \<noteq> [] \<longrightarrow>
         u\<lparr>image := Some (''http://localhost:8080'' @ p)\<rparr> |\<in>| us \<and>
         fmlookup (users (snd (get_users example_world))) i = Some u"
    by blast
  from r lookup_alice a
  have "alice\<lparr>image := Some (''http://localhost:8080'' @ ''/uploads/1730630000123-cat.png'')\<rparr> |\<in>| us \<and>
      fmlookup (users (snd (get_users example_world))) alice_id = Some alice"
    by blast
  then have "alice\<lparr>image := Some ''http://localhost:8080/uploads/1730630000123-cat.png''\<rparr> |\<in>| us"
    and "fmlookup (users (snd (get_users example_world))) alice_id = Some alice"
    by simp_all
  then show ?thesis
    using s f by blast
qed

section \<open>Creating a user and reading it back\<close>

text \<open>
  C9. A request to \<^verbatim>\<open>POST /addUser\<close> with non-empty \<^verbatim>\<open>username\<close>, \<^verbatim>\<open>email\<close> and
  \<^verbatim>\<open>password\<close> and no file part, for which the store draws a free identifier, is answered
  with 201 and the created record; get-by-id for the identifier of that record, in the
  state after the creation, answers 200 with the same record, and its image is null.
\<close>

theorem create_then_get_no_image:
  assumes "castObjectId new_id = Some new_id" and "part req = None"
    and "truthy (body_username req)" and "truthy (body_email req)"
    and "truthy (body_password req)" and "fmlookup (users w) new_id = None"
    and "params_id req' = new_id"
  shows "\<exists>u w'. route_addUser d now new_id req w =
                   (\<lparr>status = 201, payload = Json_user u\<rparr>, w') \<and>
                uid u = new_id \<and> username u = body_username req \<and>
                email u = body_email req \<and> password u = body_password req \<and>
                get_user req' w' = (\<lparr>status = 200, payload = Json_user u\<rparr>, w') \<and>
                image u = None"
proof -
  let ?req = "req\<lparr>req_file := None\<rparr>"
  let ?u = "\<lparr>uid = new_id, username = body_username req, email = body_email req,
             password = body_password req, image = None\<rparr>"
  let ?w = "w\<lparr>users := fmupd new_id ?u (users w)\<rparr>"
  have up: "upload_single ''image'' d now req w = Inr (?req, w)"
    by (rule upload_single_no_part [OF assms(2)])
  have "post_addUser new_id ?req w = (\<lparr>status = 201, payload = Json_user ?u\<rparr>, ?w)"
    using post_addUser_saved [of ?req w new_id] assms(3-6) by simp
  then have r: "route_addUser d now new_id req w = (\<lparr>status = 201, payload = Json_user ?u\<rparr>, ?w)"
    unfolding route_addUser_def up by simp
  have c: "castObjectId (params_id req') = Some new_id"
    using assms(1,7) by simp
  have l: "fmlookup (users ?w) new_id = Some ?u"
    by simp
  have g: "get_user req' ?w = (\<lparr>status = 200, payload = Json_user ?u\<rparr>, ?w)"
    by (rule get_user_found [OF c l])
  show ?thesis
    using r g by (intro exI [of _ ?u] exI [of _ ?w]) simp
qed

theorem create_then_get_no_image_witness:
  "\<exists>u w'. route_addUser example_dir 1730630000123 carol_id carol_request example_world =
             (\<lparr>status = 201, payload = Json_user u\<rparr>, w') \<and>
          username u = Some ''carol'' \<and>
          get_user (bob_request carol_id) w' = (\<lparr>status = 200, payload = Json_user u\<rparr>, w') \<and>
          image u = None"
proof -
  have p: "part carol_request = None"
    by (simp add: carol_request_def)
  have t: "truthy (body_username carol_request)" "truthy (body_email carol_request)"
    "truthy (body_password carol_request)"
    by (simp_all add: carol_request_def truthy_def)
  have i: "params_id (bob_request carol_id) = carol_id"
    by (simp add: bob_request_def)
  have n: "body_username carol_request = Some ''carol''"
    by (simp add: carol_request_def)
  from create_then_get_no_image [OF cast_carol p t lookup_carol i, of example_dir 1730630000123]
  obtain u w' where
    "route_addUser example_dir 1730630000123 carol_id carol_request example_world =
       (\<lparr>status = 201, payload = Json_user u\<rparr>, w')"
    "username u = body_username carol_request"
    "get_user (bob_request carol_id) w' = (\<lparr>status = 200, payload = Json_user u\<rparr>, w')"
    "image u = None"
    by blast
  then show ?thesis
    using n by (intro exI [of _ u] exI [of _ w']) simp
qed

end
